theory Spec2Isabelle
  imports Main "HOL-Library.Sublist" "HOL-Library.Char_ord"
begin

section \<open>Data types of the workflow engine (adw_modules/data_types.py)\<close>

text \<open>
  Python strings are modelled as \<open>string\<close> (lists of 8-bit characters); the model is
  exact for ASCII text, which is what keywords, slash commands and the fixed messages
  of the engine consist of.
\<close>

datatype ADWWorkflow =
  PLAN_BUILD | PLAN_BUILD_TEST | PLAN_BUILD_REVIEW | PLAN_BUILD_TEST_REVIEW | SDLC | PATCH

datatype ADWPhase =
  CLASSIFY | BRANCH | PLAN | BUILD | TEST | REVIEW | DOCUMENT | PR

datatype Severity = Blocker | Warning | Suggestion

record TestResult =
  tr_suite :: string
  tr_passed :: bool
  tr_output :: string
  tr_error :: "string option"

record E2ETestResult =
  all_passed :: bool
  results :: "TestResult list"
  test_attempt :: int

record ReviewIssue =
  ri_file :: string
  ri_line :: "int option"
  ri_severity :: Severity
  ri_description :: string

record ReviewResult =
  approved :: bool
  issues :: "ReviewIssue list"
  screenshots :: "string list"
  review_summary :: string
  review_attempt :: int

record DocumentationResult =
  files_created :: "string list"
  doc_summary :: string

record AgentPromptResponse =
  resp_output :: string
  resp_success :: bool
  resp_session_id :: "string option"

record AgentTemplateRequest =
  agent_name :: string
  slash_command :: string
  args :: "string list"
  adw_id :: string
  image_paths :: "string list"
  model :: string

record ADWStateData =
  st_adw_id :: string
  issue_number :: string
  workflow :: ADWWorkflow
  issue_class :: "string option"
  branch_name :: "string option"
  plan_file :: "string option"
  current_phase :: ADWPhase
  completed_phases :: "ADWPhase list"
  test_results :: "E2ETestResult list"
  review_results :: "ReviewResult list"
  documentation :: "DocumentationResult option"
  pr_url :: "string option"
  error :: "string option"
  created_at :: string
  updated_at :: string

section \<open>The outside world\<close>

text \<open>
  Everything a phase does to its surroundings is recorded, in order, as a list of
  events. The surroundings answer through oracles that may depend on the whole history
  so far, which covers every behaviour of the clock, the coding agent and the issue
  tracker that a sequential run can meet. \<open>git_remote\<close> is the URL of the remote
  \<open>origin\<close> (\<open>None\<close> when there is none, or no git), and \<open>set_order\<close> gives the
  keys by which the process lists the elements of a set of strings.
\<close>

datatype event =
    EvSave string
  | EvAgent AgentTemplateRequest AgentPromptResponse
  | EvComment string string int
  | EvUpload string "string option"
  | EvE2E "string list"

record world =
  disk :: "string \<rightharpoonup> ADWStateData"
  trace :: "event list"

record env =
  project_root :: string
  now_isoformat :: "event list \<Rightarrow> string"
  agent :: "event list \<Rightarrow> AgentTemplateRequest \<Rightarrow> AgentPromptResponse"
  gh_issue_comment :: "event list \<Rightarrow> string \<Rightarrow> string \<Rightarrow> int"
  gh_upload :: "event list \<Rightarrow> string \<Rightarrow> string option"
  playwright_pngs :: "event list \<Rightarrow> string list"
  git_remote :: "event list \<Rightarrow> string option"
  set_order :: "event list \<Rightarrow> string \<Rightarrow> nat"

section \<open>Paths (os.path.join on POSIX)\<close>

definition path_join2 :: "string \<Rightarrow> string \<Rightarrow> string" where
  "path_join2 a b =
     (if b \<noteq> [] \<and> hd b = CHR ''/'' then b
      else if a = [] \<or> last a = CHR ''/'' then a @ b
      else a @ ''/'' @ b)"

definition path_join :: "string \<Rightarrow> string list \<Rightarrow> string" where
  "path_join a ps = foldl path_join2 a ps"

section \<open>State store (adw_modules/state.py)\<close>

definition get_state_path :: "env \<Rightarrow> string \<Rightarrow> string" where
  "get_state_path e aid = path_join (project_root e) [''agents'', aid, ''adw_state.json'']"


text \<open>
  \<open>save_state\<close> refreshes \<open>updated_at\<close> on the object itself and writes the record to its
  file. The record is stored as it is: serialisation to JSON and back is taken to be the
  identity on records.
\<close>

definition save_state :: "env \<Rightarrow> world \<Rightarrow> ADWStateData \<Rightarrow> world \<times> ADWStateData" where
  "save_state e w s =
     (let p = get_state_path e (st_adw_id s);
          s' = s\<lparr>updated_at := now_isoformat e (trace w)\<rparr>
      in (w\<lparr>disk := (disk w)(p \<mapsto> s'), trace := trace w @ [EvSave p]\<rparr>, s'))"

definition new_state :: "env \<Rightarrow> world \<Rightarrow> string \<Rightarrow> string \<Rightarrow> ADWWorkflow \<Rightarrow> ADWStateData" where
  "new_state e w aid issue wkf =
     \<lparr>st_adw_id = aid, issue_number = issue, workflow = wkf, issue_class = None,
      branch_name = None, plan_file = None, current_phase = CLASSIFY,
      completed_phases = [], test_results = [], review_results = [],
      documentation = None, pr_url = None, error = None,
      created_at = now_isoformat e (trace w), updated_at = now_isoformat e (trace w)\<rparr>"

definition create_state ::
  "env \<Rightarrow> world \<Rightarrow> string \<Rightarrow> string \<Rightarrow> ADWWorkflow \<Rightarrow> world \<times> ADWStateData" where
  "create_state e w aid issue wkf = save_state e w (new_state e w aid issue wkf)"

definition advance_phase ::
  "env \<Rightarrow> world \<Rightarrow> ADWStateData \<Rightarrow> ADWPhase \<Rightarrow> world \<times> ADWStateData" where
  "advance_phase e w s next_phase =
     (let s1 = (if current_phase s \<notin> set (completed_phases s)
                then s\<lparr>completed_phases := completed_phases s @ [current_phase s]\<rparr>
                else s);
          s2 = s1\<lparr>current_phase := next_phase\<rparr>
      in save_state e w s2)"

definition mark_error ::
  "env \<Rightarrow> world \<Rightarrow> ADWStateData \<Rightarrow> string \<Rightarrow> world \<times> ADWStateData" where
  "mark_error e w s msg = save_state e w (s\<lparr>error := Some msg\<rparr>)"

text \<open>A sequence of state-store operations applied to the state object of a workflow.\<close>

datatype state_op =
    OpCreate string string ADWWorkflow
  | OpSave
  | OpAdvance ADWPhase
  | OpMarkError string

fun apply_state_op :: "env \<Rightarrow> world \<times> ADWStateData \<Rightarrow> state_op \<Rightarrow> world \<times> ADWStateData" where
  "apply_state_op e (w, s) (OpCreate aid issue wkf) = create_state e w aid issue wkf"
| "apply_state_op e (w, s) OpSave = save_state e w s"
| "apply_state_op e (w, s) (OpAdvance p) = advance_phase e w s p"
| "apply_state_op e (w, s) (OpMarkError msg) = mark_error e w s msg"

definition run_state_ops ::
  "env \<Rightarrow> world \<times> ADWStateData \<Rightarrow> state_op list \<Rightarrow> world \<times> ADWStateData" where
  "run_state_ops e ws ops = foldl (apply_state_op e) ws ops"

text \<open>The advances of the combined plan-build workflow (adw_plan_build.py), in order.\<close>

definition plan_build_advances :: "state_op list" where
  "plan_build_advances =
     [OpAdvance BRANCH, OpAdvance PLAN, OpSave, OpAdvance BUILD, OpAdvance PR, OpAdvance PR]"

subsection \<open>Completed phases never repeat\<close>

lemma save_state_phases:
  "completed_phases (snd (save_state e w s)) = completed_phases s"
  "current_phase (snd (save_state e w s)) = current_phase s"
  by (simp_all add: save_state_def Let_def)

lemma advance_phase_phases:
  "completed_phases (snd (advance_phase e w s p)) =
     (if current_phase s \<in> set (completed_phases s) then completed_phases s
      else completed_phases s @ [current_phase s])"
  "current_phase (snd (advance_phase e w s p)) = p"
  by (simp_all add: advance_phase_def Let_def save_state_phases)

lemma apply_state_op_distinct:
  assumes "distinct (completed_phases (snd ws))"
  shows "distinct (completed_phases (snd (apply_state_op e ws op)))"
proof (cases ws)
  case (Pair w s)
  with assms show ?thesis
    by (cases op)
      (simp_all add: create_state_def new_state_def mark_error_def
        save_state_phases advance_phase_phases)
qed

lemma run_state_ops_distinct:
  "distinct (completed_phases (snd ws)) \<Longrightarrow>
   distinct (completed_phases (snd (run_state_ops e ws ops)))"
  unfolding run_state_ops_def
  by (induction ops arbitrary: ws) (simp_all add: apply_state_op_distinct)

lemma create_state_distinct:
  "distinct (completed_phases (snd (create_state e w aid issue wkf)))"
  by (simp add: create_state_def new_state_def save_state_phases)

lemma count_list_distinct_member:
  "distinct xs \<Longrightarrow> x \<in> set xs \<Longrightarrow> count_list xs x = 1"
  by (induction xs) auto

lemma advance_twice_count:
  assumes "distinct (completed_phases s)"
  shows "count_list
           (completed_phases (snd (advance_phase e w' (snd (advance_phase e w s PR)) PR))) PR = 1"
proof -
  have d: "distinct (completed_phases (snd (advance_phase e w' (snd (advance_phase e w s PR)) PR)))"
    using assms by (simp add: advance_phase_phases)
  have m: "PR \<in> set (completed_phases (snd (advance_phase e w' (snd (advance_phase e w s PR)) PR)))"
    by (simp add: advance_phase_phases)
  from d m show ?thesis
    by (rule count_list_distinct_member)
qed

text \<open>
  Claim C9. Starting from a freshly created workflow record, after any sequence of
  create, save, advance and mark-error operations the completed-phases list holds no
  phase twice; advancing from there puts the phase that was current into
  completed-phases; two advances to PR in a row leave exactly one PR entry; and the
  advances of the combined plan-build workflow end with the completed phases
  classify, branch, plan, build, pr.
\<close>

theorem completed_phases_never_repeat:
  fixes e :: env and w w1 w2 :: world and aid issue :: string
    and wkf :: ADWWorkflow and ops :: "state_op list"
  defines "s \<equiv> snd (run_state_ops e (create_state e w aid issue wkf) ops)"
  shows "distinct (completed_phases s)
     \<and> current_phase s \<in> set (completed_phases (snd (advance_phase e w1 s p)))
     \<and> count_list (completed_phases
          (snd (advance_phase e w2 (snd (advance_phase e w1 s PR)) PR))) PR = 1
     \<and> completed_phases (snd (run_state_ops e (create_state e w aid issue wkf)
          plan_build_advances)) = [CLASSIFY, BRANCH, PLAN, BUILD, PR]"
proof -
  have d: "distinct (completed_phases s)"
    unfolding s_def by (rule run_state_ops_distinct) (rule create_state_distinct)
  have m: "current_phase s \<in> set (completed_phases (snd (advance_phase e w1 s p)))"
    by (simp add: advance_phase_phases)
  have c: "count_list (completed_phases
          (snd (advance_phase e w2 (snd (advance_phase e w1 s PR)) PR))) PR = 1"
    using d by (rule advance_twice_count)
  have pb: "completed_phases (snd (run_state_ops e (create_state e w aid issue wkf)
          plan_build_advances)) = [CLASSIFY, BRANCH, PLAN, BUILD, PR]"
    by (simp add: run_state_ops_def plan_build_advances_def create_state_def new_state_def
        save_state_def advance_phase_def Let_def)
  from d m c pb show ?thesis by blast
qed

section \<open>Strings (str.lower, str.strip, substring test)\<close>

definition lower_char :: "char \<Rightarrow> char" where
  "lower_char c =
     (let n = (of_char c :: nat) in if 65 \<le> n \<and> n \<le> 90 then char_of (n + 32) else c)"

definition py_lower :: "string \<Rightarrow> string" where
  "py_lower s = map lower_char s"

text \<open>The ASCII characters for which \<open>str.isspace\<close> holds (also the class \<open>\s\<close>).\<close>

definition is_space :: "char \<Rightarrow> bool" where
  "is_space c = (let n = (of_char c :: nat) in (9 \<le> n \<and> n \<le> 13) \<or> (28 \<le> n \<and> n \<le> 32))"

definition py_strip :: "string \<Rightarrow> string" where
  "py_strip s = rev (dropWhile is_space (rev (dropWhile is_space s)))"

text \<open>\<open>contains_str sub s\<close> is Python's \<open>sub in s\<close>.\<close>

fun contains_str :: "string \<Rightarrow> string \<Rightarrow> bool" where
  "contains_str sub [] = (sub = [])"
| "contains_str sub (c # cs) = (prefix sub (c # cs) \<or> contains_str sub cs)"

text \<open>
  \<open>split_at_sub sub s\<close> cuts \<open>s\<close> at the first occurrence of \<open>sub\<close>: the text before it
  and the text after it.
\<close>

fun split_at_sub :: "string \<Rightarrow> string \<Rightarrow> (string \<times> string) option" where
  "split_at_sub sub [] = (if sub = [] then Some ([], []) else None)"
| "split_at_sub sub (c # cs) =
     (if prefix sub (c # cs) then Some ([], drop (length sub) (c # cs))
      else (case split_at_sub sub cs of
              None \<Rightarrow> None
            | Some (before, after) \<Rightarrow> Some (c # before, after)))"

section \<open>JSON values and the libraries the engine relies on\<close>

text \<open>
  A parsed JSON document as Python sees it. \<open>JNull\<close> is \<open>None\<close>; an object is the list
  of the items of its dict (keys unique); a float is kept as mantissa and exponent, of
  which only being zero matters here.
\<close>

datatype json =
    JNull
  | JBool bool
  | JInt int
  | JFloat int int
  | JStr string
  | JArr "json list"
  | JObj "(string \<times> json) list"

text \<open>
  The standard library's \<open>json.loads\<close> (\<open>None\<close>: it raises JSONDecodeError) and
  \<open>json.dumps\<close>, and pydantic's coercion of a value into a \<open>bool\<close> and an \<open>int\<close> field
  (\<open>None\<close>: it raises ValidationError) are not code of this repository: they are
  parameters of the model.
\<close>

record lib =
  json_loads :: "string \<Rightarrow> json option"
  json_dumps :: "json list \<Rightarrow> string"
  coerce_bool :: "json \<Rightarrow> bool option"
  coerce_int :: "json \<Rightarrow> int option"

text \<open>Python's truth value of a parsed document.\<close>

fun truthy :: "json \<Rightarrow> bool" where
  "truthy JNull = False"
| "truthy (JBool b) = b"
| "truthy (JInt n) = (n \<noteq> 0)"
| "truthy (JFloat m ex) = (m \<noteq> 0)"
| "truthy (JStr s) = (s \<noteq> [])"
| "truthy (JArr xs) = (xs \<noteq> [])"
| "truthy (JObj kvs) = (kvs \<noteq> [])"

text \<open>\<open>item.get(key)\<close>: \<open>None\<close> when \<open>item\<close> is no dict (AttributeError), else the lookup.\<close>

fun dict_get :: "json \<Rightarrow> string \<Rightarrow> json option option" where
  "dict_get (JObj kvs) k = Some (map_of kvs k)"
| "dict_get _ k = None"

text \<open>Validation of a \<open>str\<close>, an \<open>Optional[str]\<close> and a \<open>List[str]\<close> field by pydantic.\<close>

fun valid_str :: "json \<Rightarrow> string option" where
  "valid_str (JStr s) = Some s"
| "valid_str _ = None"

fun valid_opt_str :: "json \<Rightarrow> string option option" where
  "valid_opt_str JNull = Some None"
| "valid_opt_str (JStr s) = Some (Some s)"
| "valid_opt_str _ = None"

fun valid_str_list :: "json \<Rightarrow> string list option" where
  "valid_str_list (JArr xs) =
     (if list_all (\<lambda>x. valid_str x \<noteq> None) xs then Some (map (\<lambda>x. the (valid_str x)) xs)
      else None)"
| "valid_str_list _ = None"

definition valid_opt_int :: "lib \<Rightarrow> json \<Rightarrow> int option option" where
  "valid_opt_int l v = (if v = JNull then Some None else map_option Some (coerce_int l v))"

fun valid_severity :: "json \<Rightarrow> Severity option" where
  "valid_severity (JStr s) =
     (if s = ''blocker'' then Some Blocker
      else if s = ''warning'' then Some Warning
      else if s = ''suggestion'' then Some Suggestion
      else None)"
| "valid_severity _ = None"

section \<open>parse_json (adw_modules/utils.py)\<close>

definition fence :: string where
  "fence = [CHR 0x60, CHR 0x60, CHR 0x60]"

text \<open>
  The search for the pattern of a fenced block: three backquotes, an optional
  \<open>json\<close>, then lazily any text up to the next three backquotes. The leftmost match
  starts at the first fence and its group, once stripped, is the stripped text between
  the opening fence (and \<open>json\<close>) and the next fence; without a later fence nothing
  matches.
\<close>

definition fence_search :: "string \<Rightarrow> string option" where
  "fence_search s =
     (case split_at_sub fence s of
        None \<Rightarrow> None
      | Some (before, rest) \<Rightarrow>
          (let rest' = (if prefix ''json'' rest then drop 4 rest else rest)
           in (case split_at_sub fence rest' of
                 None \<Rightarrow> None
               | Some (inner, after) \<Rightarrow> Some inner)))"

text \<open>\<open>parse_json\<close> returns the parsed document, or \<open>None\<close> (here \<open>JNull\<close>) when nothing parses.\<close>

definition parse_json :: "lib \<Rightarrow> string \<Rightarrow> json" where
  "parse_json l text =
     (let stripped = py_strip text
      in (case json_loads l stripped of
            Some v \<Rightarrow> v
          | None \<Rightarrow>
              (case fence_search stripped of
                 None \<Rightarrow> JNull
               | Some inner \<Rightarrow>
                   (case json_loads l (py_strip inner) of
                      Some v \<Rightarrow> v
                    | None \<Rightarrow> JNull))))"

section \<open>Calling the agent from a phase\<close>

text \<open>
  Exceptions a phase does not catch end the process with a traceback and exit status 1.
\<close>

datatype exn = AttributeError | TypeError | ValidationError

fun collect :: "('a \<Rightarrow> exn + 'b) \<Rightarrow> 'a list \<Rightarrow> exn + 'b list" where
  "collect f [] = Inr []"
| "collect f (x # xs) =
     (case f x of
        Inl ex \<Rightarrow> Inl ex
      | Inr y \<Rightarrow> (case collect f xs of Inl ex \<Rightarrow> Inl ex | Inr ys \<Rightarrow> Inr (y # ys)))"




text \<open>
  At the level of a phase the Agent Runner is an oracle: \<open>execute_template\<close> hands over
  the request and gets the typed response, and the call is recorded.
\<close>

definition execute_template ::
  "env \<Rightarrow> world \<Rightarrow> AgentTemplateRequest \<Rightarrow> world \<times> AgentPromptResponse" where
  "execute_template e w rq =
     (let r = agent e (trace w) rq in (w\<lparr>trace := trace w @ [EvAgent rq r]\<rparr>, r))"

section \<open>Test phase: one /test run (adw_test.py, run_tests)\<close>




definition test_result_of_item :: "lib \<Rightarrow> json \<Rightarrow> exn + TestResult" where
  "test_result_of_item l item =
     (case item of
        JObj kvs \<Rightarrow>
          (case (case map_of kvs ''suite'' of None \<Rightarrow> Some ''unknown'' | Some v \<Rightarrow> valid_str v,
                 case map_of kvs ''passed'' of None \<Rightarrow> Some False | Some v \<Rightarrow> coerce_bool l v,
                 case map_of kvs ''output'' of None \<Rightarrow> Some [] | Some v \<Rightarrow> valid_str v,
                 case map_of kvs ''error'' of None \<Rightarrow> Some None | Some v \<Rightarrow> valid_opt_str v) of
             (Some su, Some pa, Some ou, Some er) \<Rightarrow>
               Inr \<lparr>tr_suite = su, tr_passed = pa, tr_output = ou, tr_error = er\<rparr>
           | _ \<Rightarrow> Inl ValidationError)
      | _ \<Rightarrow> Inl AttributeError)"

fun list_items :: "json \<Rightarrow> json list option" where
  "list_items (JArr xs) = Some xs"
| "list_items _ = None"

text \<open>The fallback of \<open>run_tests\<close>: pass indicators in the lowercased raw output.\<close>

definition test_heuristic :: "string \<Rightarrow> bool" where
  "test_heuristic out =
     (let raw = py_lower out
      in contains_str ''all tests passed'' raw
         \<or> (contains_str ''pass'' raw \<and> \<not> contains_str ''fail'' raw))"

definition test_result_of_response ::
  "lib \<Rightarrow> AgentPromptResponse \<Rightarrow> int \<Rightarrow> exn + E2ETestResult" where
  "test_result_of_response l response attempt =
     (if \<not> resp_success response then
        Inr \<lparr>all_passed = False,
             results = [\<lparr>tr_suite = ''all'', tr_passed = False, tr_output = [],
                         tr_error = Some (resp_output response)\<rparr>],
             test_attempt = attempt\<rparr>
      else
        (let parsed = parse_json l (resp_output response)
         in (case (truthy parsed, list_items parsed) of
               (True, Some items) \<Rightarrow>
                 (case collect (test_result_of_item l) items of
                    Inl ex \<Rightarrow> Inl ex
                  | Inr trs \<Rightarrow>
                      Inr \<lparr>all_passed = list_all tr_passed trs, results = trs,
                           test_attempt = attempt\<rparr>)
             | _ \<Rightarrow>
                 (let passed = test_heuristic (resp_output response)
                  in Inr \<lparr>all_passed = passed,
                          results = [\<lparr>tr_suite = ''all'', tr_passed = passed,
                                      tr_output = resp_output response, tr_error = None\<rparr>],
                          test_attempt = attempt\<rparr>))))"


section \<open>Review phase: one /review run (adw_review.py, run_review)\<close>




definition review_issue_of_item :: "lib \<Rightarrow> json \<Rightarrow> exn + ReviewIssue" where
  "review_issue_of_item l item =
     (case item of
        JObj kvs \<Rightarrow>
          (case (case map_of kvs ''file'' of None \<Rightarrow> Some ''unknown'' | Some v \<Rightarrow> valid_str v,
                 case map_of kvs ''line'' of None \<Rightarrow> Some None | Some v \<Rightarrow> valid_opt_int l v,
                 case map_of kvs ''severity'' of
                   None \<Rightarrow> Some Suggestion
                 | Some v \<Rightarrow> valid_severity v,
                 case map_of kvs ''description'' of None \<Rightarrow> Some [] | Some v \<Rightarrow> valid_str v) of
             (Some fi, Some li, Some se, Some de) \<Rightarrow>
               Inr \<lparr>ri_file = fi, ri_line = li, ri_severity = se, ri_description = de\<rparr>
           | _ \<Rightarrow> Inl ValidationError)
      | _ \<Rightarrow> Inl AttributeError)"

text \<open>
  What a \<open>for\<close> loop runs over: the elements of a list, the keys of a dict, the
  characters of a string; anything else is not iterable (TypeError).
\<close>

fun py_iter :: "json \<Rightarrow> json list option" where
  "py_iter (JArr xs) = Some xs"
| "py_iter (JObj kvs) = Some (map (\<lambda>kv. JStr (fst kv)) kvs)"
| "py_iter (JStr s) = Some (map (\<lambda>c. JStr [c]) s)"
| "py_iter _ = None"

fun dict_items :: "json \<Rightarrow> (string \<times> json) list option" where
  "dict_items (JObj kvs) = Some kvs"
| "dict_items _ = None"

text \<open>The fallback of \<open>run_review\<close>: blockers are inferred from the lowercased raw output.\<close>

definition review_has_blockers :: "string \<Rightarrow> bool" where
  "review_has_blockers out =
     (let raw = py_lower out
      in contains_str ''blocker'' raw
         \<and> (\<not> contains_str ''approved'' raw \<or> contains_str ''not approved'' raw))"

definition review_of_dict ::
  "lib \<Rightarrow> (string \<times> json) list \<Rightarrow> string \<Rightarrow> int \<Rightarrow> exn + ReviewResult" where
  "review_of_dict l kvs out attempt =
     (case py_iter (case map_of kvs ''issues'' of None \<Rightarrow> JArr [] | Some v \<Rightarrow> v) of
        None \<Rightarrow> Inl TypeError
      | Some items \<Rightarrow>
          (case collect (review_issue_of_item l) items of
             Inl ex \<Rightarrow> Inl ex
           | Inr iss \<Rightarrow>
               (case (case map_of kvs ''approved'' of
                        None \<Rightarrow> Some (length iss = 0)
                      | Some v \<Rightarrow> coerce_bool l v,
                      case map_of kvs ''screenshots'' of
                        None \<Rightarrow> Some []
                      | Some v \<Rightarrow> valid_str_list v,
                      case map_of kvs ''summary'' of
                        None \<Rightarrow> Some (take 200 out)
                      | Some v \<Rightarrow> valid_str v) of
                  (Some ap, Some sc, Some su) \<Rightarrow>
                    Inr \<lparr>approved = ap, issues = iss, screenshots = sc,
                         review_summary = su, review_attempt = attempt\<rparr>
                | _ \<Rightarrow> Inl ValidationError)))"

definition review_result_of_response ::
  "lib \<Rightarrow> AgentPromptResponse \<Rightarrow> int \<Rightarrow> exn + ReviewResult" where
  "review_result_of_response l response attempt =
     (if \<not> resp_success response then
        Inr \<lparr>approved = False,
             issues = [\<lparr>ri_file = ''unknown'', ri_line = None, ri_severity = Blocker,
                        ri_description = resp_output response\<rparr>],
             screenshots = [],
             review_summary = ''Review failed: '' @ resp_output response,
             review_attempt = attempt\<rparr>
      else
        (let parsed = parse_json l (resp_output response)
         in (case (truthy parsed, dict_items parsed) of
               (True, Some kvs) \<Rightarrow> review_of_dict l kvs (resp_output response) attempt
             | _ \<Rightarrow>
                 Inr \<lparr>approved = \<not> review_has_blockers (resp_output response),
                      issues = [], screenshots = [],
                      review_summary = take 500 (resp_output response),
                      review_attempt = attempt\<rparr>)))"


text \<open>The blockers of a review, as the review phase selects them.\<close>

definition blockers :: "ReviewIssue list \<Rightarrow> ReviewIssue list" where
  "blockers iss = filter (\<lambda>i. ri_severity i = Blocker) iss"

section \<open>Concrete inputs\<close>

text \<open>
  A stand-in for the JSON library on the few texts evaluated below: it parses two
  documents and rejects the other texts, none of which is JSON, as \<open>json.loads\<close> does.
\<close>

definition dq :: string where
  "dq = [CHR 0x22]"

definition doc_issue_text :: string where
  "doc_issue_text =
     ''{'' @ dq @ ''issues'' @ dq @ '': [{'' @ dq @ ''file'' @ dq @ '': '' @ dq @ ''a.py'' @ dq @ ''}]}''"

definition doc_lib :: lib where
  "doc_lib =
     \<lparr>json_loads = (\<lambda>s.
        if s = ''{}'' then Some (JObj [])
        else if s = doc_issue_text
          then Some (JObj [(''issues'', JArr [JObj [(''file'', JStr ''a.py'')]])])
        else None),
      json_dumps = (\<lambda>ms. ''[]''),
      coerce_bool = (\<lambda>v. case v of JBool b \<Rightarrow> Some b | _ \<Rightarrow> None),
      coerce_int = (\<lambda>v. case v of JInt i \<Rightarrow> Some i | _ \<Rightarrow> None)\<rparr>"

definition three_pass :: AgentPromptResponse where
  "three_pass = \<lparr>resp_output = ''3 pass'', resp_success = True, resp_session_id = None\<rparr>"

definition fenced_empty :: AgentPromptResponse where
  "fenced_empty =
     \<lparr>resp_output = fence @ ''{}'' @ fence @ '' blocker'', resp_success = True,
      resp_session_id = None\<rparr>"

definition issue_doc :: AgentPromptResponse where
  "issue_doc = \<lparr>resp_output = doc_issue_text, resp_success = True, resp_session_id = None\<rparr>"

lemmas eval_text =
  py_strip_def py_lower_def lower_char_def is_space_def fence_search_def fence_def
  doc_issue_text_def dq_def doc_lib_def parse_json_def Let_def

section \<open>The verdict of a /test run that is not a JSON array\<close>

text \<open>
  Claim C8, amended. For every successful /test response whose output does not parse
  as a non-empty JSON array, the attempt is classified as all-passed if and only if the
  lowercased output contains "all tests passed", or contains "pass" and does not
  contain "fail".
\<close>

theorem test_fallback_verdict:
  assumes "resp_success r"
    and "\<not> (truthy (parse_json l (resp_output r))
             \<and> list_items (parse_json l (resp_output r)) \<noteq> None)"
  shows "map_sum id all_passed (test_result_of_response l r n) =
     Inr (contains_str ''all tests passed'' (py_lower (resp_output r))
          \<or> (contains_str ''pass'' (py_lower (resp_output r))
              \<and> \<not> contains_str ''fail'' (py_lower (resp_output r))))"
  using assms
  by (auto simp: test_result_of_response_def test_heuristic_def Let_def
      split: bool.splits option.splits)

theorem test_fallback_verdict_witness:
  "resp_success three_pass
   \<and> \<not> (truthy (parse_json doc_lib (resp_output three_pass))
          \<and> list_items (parse_json doc_lib (resp_output three_pass)) \<noteq> None)
   \<and> map_sum id all_passed (test_result_of_response doc_lib three_pass 1) = Inr True"
proof -
  have h1: "resp_success three_pass"
    by (simp add: three_pass_def)
  have h2: "\<not> (truthy (parse_json doc_lib (resp_output three_pass))
          \<and> list_items (parse_json doc_lib (resp_output three_pass)) \<noteq> None)"
    by (simp add: three_pass_def eval_text)
  have "map_sum id all_passed (test_result_of_response doc_lib three_pass 1) = Inr True"
    using test_fallback_verdict [OF h1 h2, of 1]
    by (simp add: three_pass_def eval_text)
  with h1 h2 show ?thesis by blast
qed

text \<open>
  The claim as stated fails: the output "3 pass" does not parse, does not contain
  "all tests passed", and the attempt is classified as all-passed.
\<close>

theorem test_fallback_counterexample:
  "map_sum id all_passed (test_result_of_response doc_lib three_pass 1) = Inr True
   \<and> parse_json doc_lib (resp_output three_pass) = JNull
   \<and> \<not> contains_str ''all tests passed'' (py_lower (resp_output three_pass))"
  by (simp add: three_pass_def test_result_of_response_def test_heuristic_def eval_text)

section \<open>Defaults of a /review answer\<close>

text \<open>
  Claim C10, amended. When a successful /review response parses as a non-empty JSON
  object without the key "approved" and yields a review result, the review counts as
  approved if and only if its issues list is empty; and an issue entry without the key
  "severity" gets the severity suggestion, so it is no blocker.
\<close>

theorem review_defaults:
  "(resp_success r \<and> parse_json l (resp_output r) = JObj kvs \<and> kvs \<noteq> []
      \<and> map_of kvs ''approved'' = None
      \<and> review_result_of_response l r n = Inr res
     \<longrightarrow> approved res = (issues res = []))
   \<and> (map_of ikvs ''severity'' = None \<and> review_issue_of_item l (JObj ikvs) = Inr i
     \<longrightarrow> ri_severity i = Suggestion \<and> blockers [i] = [])"
proof -
  have p1: "approved res = (issues res = [])"
    if a: "resp_success r \<and> parse_json l (resp_output r) = JObj kvs \<and> kvs \<noteq> []
      \<and> map_of kvs ''approved'' = None
      \<and> review_result_of_response l r n = Inr res"
  proof -
    from a have "review_of_dict l kvs (resp_output r) n = Inr res"
      by (clarsimp simp: review_result_of_response_def Let_def)
    with a show ?thesis
      by (auto simp: review_of_dict_def split: option.splits sum.splits)
  qed
  have p2: "ri_severity i = Suggestion \<and> blockers [i] = []"
    if b: "map_of ikvs ''severity'' = None \<and> review_issue_of_item l (JObj ikvs) = Inr i"
  proof -
    from b have "ri_severity i = Suggestion"
      by (auto simp: review_issue_of_item_def split: option.splits)
    then show ?thesis
      by (simp add: blockers_def)
  qed
  from p1 p2 show ?thesis by blast
qed

definition issue_doc_issue :: ReviewIssue where
  "issue_doc_issue =
     \<lparr>ri_file = ''a.py'', ri_line = None, ri_severity = Suggestion, ri_description = []\<rparr>"

definition issue_doc_review :: ReviewResult where
  "issue_doc_review =
     \<lparr>approved = False, issues = [issue_doc_issue], screenshots = [],
      review_summary = take 200 doc_issue_text, review_attempt = 1\<rparr>"

theorem review_defaults_witness:
  "resp_success issue_doc
   \<and> parse_json doc_lib (resp_output issue_doc)
       = JObj [(''issues'', JArr [JObj [(''file'', JStr ''a.py'')]])]
   \<and> map_of [(''issues'', JArr [JObj [(''file'', JStr ''a.py'')]])] ''approved'' = None
   \<and> review_result_of_response doc_lib issue_doc 1 = Inr issue_doc_review
   \<and> approved issue_doc_review = (issues issue_doc_review = [])
   \<and> map_of [(''file'', JStr ''a.py'')] ''severity'' = None
   \<and> review_issue_of_item doc_lib (JObj [(''file'', JStr ''a.py'')]) = Inr issue_doc_issue
   \<and> ri_severity issue_doc_issue = Suggestion
   \<and> blockers [issue_doc_issue] = []"
proof -
  have h1: "resp_success issue_doc"
    by (simp add: issue_doc_def)
  have h2: "parse_json doc_lib (resp_output issue_doc)
       = JObj [(''issues'', JArr [JObj [(''file'', JStr ''a.py'')]])]"
    by (simp add: issue_doc_def eval_text)
  have h3: "review_issue_of_item doc_lib (JObj [(''file'', JStr ''a.py'')]) = Inr issue_doc_issue"
    by (simp add: review_issue_of_item_def issue_doc_issue_def)
  have h4: "review_result_of_response doc_lib issue_doc 1 = Inr issue_doc_review"
    using h1 h2 h3
    by (simp add: review_result_of_response_def review_of_dict_def issue_doc_review_def
        issue_doc_def)
  from review_defaults [where r = issue_doc and l = doc_lib and n = 1
      and kvs = "[(''issues'', JArr [JObj [(''file'', JStr ''a.py'')]])]"
      and res = issue_doc_review and ikvs = "[(''file'', JStr ''a.py'')]"
      and i = issue_doc_issue] h1 h2 h3 h4
  show ?thesis by simp
qed

text \<open>
  The claim as stated fails for the empty object: a fenced \<open>{}\<close> followed by the word
  "blocker" parses as a JSON object without "approved" and without issues, and the
  review counts as not approved.
\<close>

theorem review_defaults_counterexample:
  "parse_json doc_lib (resp_output fenced_empty) = JObj []
   \<and> map_sum id approved (review_result_of_response doc_lib fenced_empty 1) = Inr False
   \<and> map_sum id issues (review_result_of_response doc_lib fenced_empty 1) = Inr []"
  by (simp add: fenced_empty_def review_result_of_response_def review_has_blockers_def
      eval_text)

section \<open>Keyword router (trigger_cron.py, trigger_webhook.py)\<close>

































section \<open>Agent Runner (adw_modules/agent.py)\<close>

record AgentPromptRequest =
  prompt :: string
  pr_adw_id :: string
  pr_agent_name :: string
  pr_model :: string
  pr_image_paths :: "string list"
  dangerously_skip_permissions :: bool
  output_file :: string

text \<open>
  What running a child process gives: its return code, the text on its standard output
  and on its standard error; or the exception that \<open>subprocess.run\<close> raised, as text.
\<close>

datatype proc = Exited int string string | Raised string

text \<open>
  The machine the runner works on: the host environment, the \<open>claude\<close> binary (the
  return code of \<open>claude --version\<close>, \<open>None\<close> when the binary is not found, and the run
  of a command line under an environment), \<open>os.path.abspath\<close>, the project root, and
  the text of a pydantic validation error. Files are a map from path to text; the
  agent's own edits of the working tree are left out.
\<close>

record machine =
  environ :: "string \<rightharpoonup> string"
  claude_version :: "int option"
  run_claude :: "string list \<Rightarrow> (string \<times> string) list \<Rightarrow> proc"
  abspath :: "string \<Rightarrow> string"
  runner_root :: string
  validation_error_text :: string

type_synonym files = "string \<rightharpoonup> string"

definition getenv_or :: "(string \<rightharpoonup> string) \<Rightarrow> string \<Rightarrow> string \<Rightarrow> string" where
  "getenv_or en k d = (case en k of None \<Rightarrow> d | Some v \<Rightarrow> v)"

definition CLAUDE_PATH :: "machine \<Rightarrow> string" where
  "CLAUDE_PATH m = getenv_or (environ m) ''CLAUDE_CODE_PATH'' ''claude''"

definition check_claude_installed :: "machine \<Rightarrow> string option" where
  "check_claude_installed m =
     (case claude_version m of
        None \<Rightarrow> Some (''Error: Claude Code CLI is not installed. Expected at: '' @ CLAUDE_PATH m)
      | Some rc \<Rightarrow>
          if rc \<noteq> 0
          then Some (''Error: Claude Code CLI is not installed. Expected at: '' @ CLAUDE_PATH m)
          else None)"

subsection \<open>The environment of the child\<close>

text \<open>The items of a dict whose value is not \<open>None\<close>.\<close>

fun present :: "(string \<times> string option) list \<Rightarrow> (string \<times> string) list" where
  "present [] = []"
| "present ((k, None) # kvs) = present kvs"
| "present ((k, Some v) # kvs) = (k, v) # present kvs"

definition get_claude_env :: "(string \<rightharpoonup> string) \<Rightarrow> (string \<times> string) list" where
  "get_claude_env en =
     (let required_env_vars =
            [(''ANTHROPIC_API_KEY'', en ''ANTHROPIC_API_KEY''),
             (''CLAUDE_CODE_PATH'', Some (getenv_or en ''CLAUDE_CODE_PATH'' ''claude'')),
             (''CLAUDE_BASH_MAINTAIN_PROJECT_WORKING_DIR'',
                Some (getenv_or en ''CLAUDE_BASH_MAINTAIN_PROJECT_WORKING_DIR'' ''true'')),
             (''HOME'', en ''HOME''),
             (''USER'', en ''USER''),
             (''PATH'', en ''PATH''),
             (''SHELL'', en ''SHELL''),
             (''TERM'', en ''TERM'')];
          github_pat = en ''GITHUB_PAT'';
          with_pat =
            (if github_pat \<noteq> None \<and> github_pat \<noteq> Some []
             then required_env_vars @ [(''GITHUB_PAT'', github_pat), (''GH_TOKEN'', github_pat)]
             else required_env_vars)
      in present with_pat)"

text \<open>\<open>get_safe_subprocess_env\<close> (utils.py), used for the browser tests, drops one variable.\<close>

definition get_safe_subprocess_env :: "(string \<rightharpoonup> string) \<Rightarrow> (string \<rightharpoonup> string)" where
  "get_safe_subprocess_env en = en(''CLAUDECODE'' := None)"

definition CLAUDE_ENV_KEYS :: "string set" where
  "CLAUDE_ENV_KEYS =
     {''ANTHROPIC_API_KEY'', ''CLAUDE_CODE_PATH'', ''CLAUDE_BASH_MAINTAIN_PROJECT_WORKING_DIR'',
      ''HOME'', ''USER'', ''PATH'', ''SHELL'', ''TERM'', ''GITHUB_PAT'', ''GH_TOKEN''}"

subsection \<open>Saving the prompt\<close>

definition is_word_char :: "char \<Rightarrow> bool" where
  "is_word_char c =
     (let n = (of_char c :: nat)
      in (48 \<le> n \<and> n \<le> 57) \<or> (65 \<le> n \<and> n \<le> 90) \<or> (97 \<le> n \<and> n \<le> 122) \<or> n = 95)"

text \<open>The match of \<open>^(/\w+)\<close> at the start of the prompt, without its slash.\<close>

definition command_name_of :: "string \<Rightarrow> string option" where
  "command_name_of p =
     (case p of
        [] \<Rightarrow> None
      | c # cs \<Rightarrow>
          if c = CHR ''/'' \<and> takeWhile is_word_char cs \<noteq> []
          then Some (takeWhile is_word_char cs) else None)"

definition save_prompt :: "machine \<Rightarrow> files \<Rightarrow> string \<Rightarrow> string \<Rightarrow> string \<Rightarrow> files" where
  "save_prompt m fs p aid agent_nm =
     (case command_name_of p of
        None \<Rightarrow> fs
      | Some command_name \<Rightarrow>
          (let prompt_dir = path_join (runner_root m) [''agents'', aid, agent_nm, ''prompts''];
               prompt_file = path_join prompt_dir [command_name @ ''.txt'']
           in fs(prompt_file \<mapsto> p)))"

subsection \<open>Reading the output\<close>

text \<open>The lines of a text file, each with its line feed.\<close>

fun file_lines_from :: "string \<Rightarrow> string \<Rightarrow> string list" where
  "file_lines_from acc [] = (if acc = [] then [] else [rev acc])"
| "file_lines_from acc (c # cs) =
     (if c = CHR 0x0A then rev (c # acc) # file_lines_from [] cs
      else file_lines_from (c # acc) cs)"

definition file_lines :: "string \<Rightarrow> string list" where
  "file_lines s = file_lines_from [] s"

text \<open>
  The search for the last message of type result, from the end. A message that is no
  dict has no \<open>get\<close>: the search fails with AttributeError (\<open>None\<close>).
\<close>

fun find_result :: "json list \<Rightarrow> json option option" where
  "find_result [] = Some None"
| "find_result (message # ms) =
     (case dict_get message ''type'' of
        None \<Rightarrow> None
      | Some ty \<Rightarrow> if ty = Some (JStr ''result'') then Some (Some message) else find_result ms)"

text \<open>The non-blank lines of the output, and their parse (\<open>None\<close>: some line is not JSON).\<close>

definition nonblank_lines :: "string \<Rightarrow> string list" where
  "nonblank_lines content = filter (\<lambda>ln. py_strip ln \<noteq> []) (file_lines content)"

definition load_messages :: "lib \<Rightarrow> string \<Rightarrow> json list option" where
  "load_messages l content = those (map (json_loads l) (nonblank_lines content))"

definition parse_jsonl_output :: "lib \<Rightarrow> files \<Rightarrow> string \<Rightarrow> json list \<times> json option" where
  "parse_jsonl_output l fs path =
     (case fs path of
        None \<Rightarrow> ([], None)
      | Some content \<Rightarrow>
          (case load_messages l content of
             None \<Rightarrow> ([], None)
           | Some messages \<Rightarrow>
               (case find_result (rev messages) of
                  None \<Rightarrow> ([], None)
                | Some result_message \<Rightarrow> (messages, result_message))))"

text \<open>\<open>jsonl_file.replace('.jsonl', '.json')\<close>.\<close>

fun replace_jsonl :: "string \<Rightarrow> string" where
  "replace_jsonl [] = []"
| "replace_jsonl (c # cs) =
     (if prefix ''.jsonl'' (c # cs) then ''.json'' @ replace_jsonl (drop 5 cs)
      else c # replace_jsonl cs)"

definition convert_jsonl_to_json :: "lib \<Rightarrow> files \<Rightarrow> string \<Rightarrow> files" where
  "convert_jsonl_to_json l fs jsonl_file =
     (let json_file = replace_jsonl jsonl_file;
          messages = fst (parse_jsonl_output l fs jsonl_file)
      in fs(json_file \<mapsto> json_dumps l messages))"

subsection \<open>prompt_claude_code\<close>

definition nl :: string where
  "nl = [CHR 0x0A]"

fun py_join :: "string \<Rightarrow> string list \<Rightarrow> string" where
  "py_join sep [] = []"
| "py_join sep [x] = x"
| "py_join sep (x # y # ys) = x @ sep @ py_join sep (y # ys)"

definition image_note :: "machine \<Rightarrow> files \<Rightarrow> string list \<Rightarrow> string" where
  "image_note m fs paths =
     (let image_refs = filter (\<lambda>p. fs p \<noteq> None) paths
      in if image_refs \<noteq> []
         then nl @ nl @ ''Reference images (use Read tool to view):'' @ nl
              @ py_join nl (map (\<lambda>p. ''- '' @ abspath m p) image_refs)
         else [])"

definition claude_cmd :: "machine \<Rightarrow> files \<Rightarrow> AgentPromptRequest \<Rightarrow> string list" where
  "claude_cmd m fs request =
     [CLAUDE_PATH m, ''-p'', prompt request @ image_note m fs (pr_image_paths request),
      ''--model'', pr_model request, ''--output-format'', ''stream-json'', ''--verbose'']
     @ (if dangerously_skip_permissions request then [''--dangerously-skip-permissions''] else [])"

definition failure :: "string \<Rightarrow> AgentPromptResponse" where
  "failure msg = \<lparr>resp_output = msg, resp_success = False, resp_session_id = None\<rparr>"

text \<open>
  \<open>d.get(key, default)\<close> on the items of a dict, and the response built from a result
  message; a field of the wrong type is a ValidationError.
\<close>

definition get_or :: "(string \<times> json) list \<Rightarrow> string \<Rightarrow> json \<Rightarrow> json" where
  "get_or kvs k d = (case map_of kvs k of None \<Rightarrow> d | Some v \<Rightarrow> v)"

definition response_of_result :: "json \<Rightarrow> AgentPromptResponse option" where
  "response_of_result result_message =
     (case dict_items result_message of
        None \<Rightarrow> None
      | Some kvs \<Rightarrow>
          (case (valid_opt_str (get_or kvs ''session_id'' JNull),
                 valid_str (get_or kvs ''result'' (JStr []))) of
             (Some sid, Some result_text) \<Rightarrow>
               Some \<lparr>resp_output = result_text,
                     resp_success = (\<not> truthy (get_or kvs ''is_error'' (JBool False))),
                     resp_session_id = sid\<rparr>
           | _ \<Rightarrow> None))"

record spawn =
  sp_cmd :: "string list"
  sp_env :: "(string \<times> string) list"
  sp_files :: files

record run_result =
  response :: AgentPromptResponse
  files_after :: files
  spawned :: "spawn option"

text \<open>
  The body of the \<open>try\<close> block once the output file is open: what the child's outcome
  makes of the response and of the files.
\<close>

definition interpret_outcome ::
  "lib \<Rightarrow> machine \<Rightarrow> files \<Rightarrow> string \<Rightarrow> proc \<Rightarrow> AgentPromptResponse \<times> files" where
  "interpret_outcome l m fs2 out_file outcome =
     (case outcome of
        Raised e \<Rightarrow> (failure (''Error executing Claude Code: '' @ e), fs2)
      | Exited returncode out err \<Rightarrow>
          (let fs3 = fs2(out_file \<mapsto> out)
           in if returncode = 0 then
                (let result_message = snd (parse_jsonl_output l fs3 out_file);
                     fs4 = convert_jsonl_to_json l fs3 out_file
                 in (case result_message of
                       Some rm \<Rightarrow>
                         (case response_of_result rm of
                            Some r \<Rightarrow> (r, fs4)
                          | None \<Rightarrow>
                              (failure (''Error executing Claude Code: '' @ validation_error_text m),
                               fs4))
                     | None \<Rightarrow>
                         (case fs4 out_file of
                            Some raw_output \<Rightarrow>
                              (\<lparr>resp_output = raw_output, resp_success = True,
                                resp_session_id = None\<rparr>, fs4)
                          | None \<Rightarrow> (failure ''Error executing Claude Code: '', fs4))))
              else (failure (''Claude Code error: '' @ err), fs3)))"

definition spawn_of :: "machine \<Rightarrow> files \<Rightarrow> AgentPromptRequest \<Rightarrow> spawn" where
  "spawn_of m fs request =
     (let fs1 = save_prompt m fs (prompt request) (pr_adw_id request) (pr_agent_name request)
      in \<lparr>sp_cmd = claude_cmd m fs1 request,
          sp_env = get_claude_env (environ m),
          sp_files = fs1(output_file request \<mapsto> [])\<rparr>)"

definition prompt_claude_code ::
  "lib \<Rightarrow> machine \<Rightarrow> files \<Rightarrow> AgentPromptRequest \<Rightarrow> run_result" where
  "prompt_claude_code l m fs request =
     (case check_claude_installed m of
        Some error_msg \<Rightarrow> \<lparr>response = failure error_msg, files_after = fs, spawned = None\<rparr>
      | None \<Rightarrow>
          (let sp = spawn_of m fs request;
               (r, fs') = interpret_outcome l m (sp_files sp) (output_file request)
                            (run_claude m (sp_cmd sp) (sp_env sp))
           in \<lparr>response = r, files_after = fs', spawned = Some sp\<rparr>))"



subsection \<open>The environment handed to the agent\<close>

lemma keys_of_present: "fst ` set (present xs) \<subseteq> fst ` set xs"
  by (induction xs rule: present.induct) auto

lemma get_claude_env_keys: "fst ` set (get_claude_env en) \<subseteq> CLAUDE_ENV_KEYS"
proof -
  define req where "req =
            [(''ANTHROPIC_API_KEY'', en ''ANTHROPIC_API_KEY''),
             (''CLAUDE_CODE_PATH'', Some (getenv_or en ''CLAUDE_CODE_PATH'' ''claude'')),
             (''CLAUDE_BASH_MAINTAIN_PROJECT_WORKING_DIR'',
                Some (getenv_or en ''CLAUDE_BASH_MAINTAIN_PROJECT_WORKING_DIR'' ''true'')),
             (''HOME'', en ''HOME''),
             (''USER'', en ''USER''),
             (''PATH'', en ''PATH''),
             (''SHELL'', en ''SHELL''),
             (''TERM'', en ''TERM'')]"
  define pat where "pat = [(''GITHUB_PAT'', en ''GITHUB_PAT''), (''GH_TOKEN'', en ''GITHUB_PAT'')]"
  define with_pat where "with_pat =
    (if en ''GITHUB_PAT'' \<noteq> None \<and> en ''GITHUB_PAT'' \<noteq> Some [] then req @ pat else req)"
  have a: "fst ` set req \<subseteq> CLAUDE_ENV_KEYS"
    by (simp add: CLAUDE_ENV_KEYS_def req_def)
  have b: "fst ` set pat \<subseteq> CLAUDE_ENV_KEYS"
    by (simp add: CLAUDE_ENV_KEYS_def pat_def)
  have w: "fst ` set with_pat \<subseteq> CLAUDE_ENV_KEYS"
  proof (cases "en ''GITHUB_PAT'' \<noteq> None \<and> en ''GITHUB_PAT'' \<noteq> Some []")
    case True
    then have "with_pat = req @ pat" by (simp add: with_pat_def)
    with a b show ?thesis by (simp add: image_Un)
  next
    case False
    then have "with_pat = req" unfolding with_pat_def by (rule if_not_P)
    with a show ?thesis by simp
  qed
  have c: "get_claude_env en = present with_pat"
    unfolding get_claude_env_def Let_def req_def pat_def with_pat_def by (rule refl)
  have "fst ` set (get_claude_env en) \<subseteq> fst ` set with_pat"
    unfolding c by (rule keys_of_present)
  then show ?thesis using w by (rule subset_trans)
qed

lemma spawned_eq:
  "spawned (prompt_claude_code l m fs rq) =
     (if check_claude_installed m = None then Some (spawn_of m fs rq) else None)"
  by (simp add: prompt_claude_code_def Let_def split: option.splits prod.splits)

lemma spawned_env:
  "spawned (prompt_claude_code l m fs rq) = Some sp \<Longrightarrow> sp_env sp = get_claude_env (environ m)"
  by (auto simp: spawned_eq spawn_of_def Let_def split: if_splits)

text \<open>
  Claim C6. For every host environment, the environment handed to the spawned coding
  agent has keys only from the fixed set ANTHROPIC_API_KEY, CLAUDE_CODE_PATH,
  CLAUDE_BASH_MAINTAIN_PROJECT_WORKING_DIR, HOME, USER, PATH, SHELL, TERM, GITHUB_PAT,
  GH_TOKEN; CLAUDECODE is never among them; and this is the environment of every spawn
  of \<open>prompt_claude_code\<close>.
\<close>

theorem claude_env_allowlist:
  "set (map fst (get_claude_env en)) \<subseteq> CLAUDE_ENV_KEYS
   \<and> ''CLAUDECODE'' \<notin> set (map fst (get_claude_env en))
   \<and> (case spawned (prompt_claude_code l m fs rq) of
        None \<Rightarrow> True
      | Some sp \<Rightarrow> sp_env sp = get_claude_env (environ m))"
proof -
  have k: "set (map fst (get_claude_env en)) \<subseteq> CLAUDE_ENV_KEYS"
    using get_claude_env_keys by simp
  have "''CLAUDECODE'' \<notin> CLAUDE_ENV_KEYS"
    by (simp add: CLAUDE_ENV_KEYS_def)
  with k have n: "''CLAUDECODE'' \<notin> set (map fst (get_claude_env en))"
    by blast
  have s: "(case spawned (prompt_claude_code l m fs rq) of
        None \<Rightarrow> True
      | Some sp \<Rightarrow> sp_env sp = get_claude_env (environ m))"
    by (simp add: spawned_env split: option.splits)
  from k n s show ?thesis by blast
qed

subsection \<open>The response of a run\<close>













subsection \<open>Concrete runs\<close>












subsection \<open>The saved prompt\<close>



lemma path_join2_plain:
  "a \<noteq> [] \<Longrightarrow> last a \<noteq> CHR ''/'' \<Longrightarrow> b \<noteq> [] \<Longrightarrow> hd b \<noteq> CHR ''/'' \<Longrightarrow>
   path_join2 a b = a @ ''/'' @ b"
  by (simp add: path_join2_def)


lemma image_note_none:
  "list_all (\<lambda>p. fs p = None) paths \<Longrightarrow> image_note m fs paths = []"
proof -
  assume "list_all (\<lambda>p. fs p = None) paths"
  then have "filter (\<lambda>p. fs p \<noteq> None) paths = []"
    by (induction paths) simp_all
  then show ?thesis by (simp add: image_note_def)
qed











section \<open>Image URLs of an issue body (data_types.py, GitHubIssue.extract_image_urls)\<close>

text \<open>
  The two patterns, matched the way \<open>re.findall\<close> does: leftmost, greedy with
  backtracking, the search going on after the end of each match. The result is the list
  of the group of each match.
\<close>

definition is_quote :: "char \<Rightarrow> bool" where
  "is_quote c = (c = CHR 0x22 \<or> c = CHR 0x27)"

definition IMG_OPEN :: string where
  "IMG_OPEN = ''<img''"

definition SRC_EQ :: string where
  "SRC_EQ = ''src=''"

definition MD_OPEN :: string where
  "MD_OPEN = ''![''"

definition MD_MID :: string where
  "MD_MID = ''](''"

text \<open>
  A delimited group: the longest run of characters satisfying \<open>inside\<close>, not empty,
  followed by one more character (the closing delimiter: the run stops only at a
  character outside the class). A shorter run is followed by a character of the class,
  so backtracking finds nothing else. The result is the group and the text after the
  delimiter.
\<close>

definition match_group :: "(char \<Rightarrow> bool) \<Rightarrow> string \<Rightarrow> (string \<times> string) option" where
  "match_group inside t =
     (if takeWhile inside t \<noteq> [] \<and> dropWhile inside t \<noteq> []
      then Some (takeWhile inside t, tl (dropWhile inside t))
      else None)"

text \<open>The end of the first pattern from \<open>src=\<close> on: a quote, the group \<open>[^"']+\<close>, a quote.\<close>

definition match_src :: "string \<Rightarrow> (string \<times> string) option" where
  "match_src s =
     (if prefix SRC_EQ s then
        (case drop (length SRC_EQ) s of
           [] \<Rightarrow> None
         | q # t \<Rightarrow> if is_quote q then match_group (\<lambda>c. \<not> is_quote c) t else None)
      else None)"

text \<open>
  \<open>[^>]+\<close> takes \<open>n\<close> characters, the longest choice first: \<open>try_src n rest\<close> tries
  \<open>n\<close>, then \<open>n - 1\<close>, down to one character.
\<close>

fun try_src :: "nat \<Rightarrow> string \<Rightarrow> (string \<times> string) option" where
  "try_src 0 rest = None"
| "try_src (Suc n) rest =
     (case match_src (drop (Suc n) rest) of
        Some r \<Rightarrow> Some r
      | None \<Rightarrow> try_src n rest)"

definition match_html_at :: "string \<Rightarrow> (string \<times> string) option" where
  "match_html_at s =
     (if prefix IMG_OPEN s
      then try_src (length (takeWhile (\<lambda>c. c \<noteq> CHR ''>'') (drop (length IMG_OPEN) s)))
             (drop (length IMG_OPEN) s)
      else None)"

text \<open>The second pattern: \<open>![\<close>, a run without \<open>]\<close>, \<open>](\<close>, the group \<open>[^)]+\<close>, \<open>)\<close>.\<close>

definition match_md_at :: "string \<Rightarrow> (string \<times> string) option" where
  "match_md_at s =
     (if prefix MD_OPEN s then
        (let after_alt = dropWhile (\<lambda>c. c \<noteq> CHR '']'') (drop (length MD_OPEN) s)
         in if prefix MD_MID after_alt
            then match_group (\<lambda>c. c \<noteq> CHR '')'') (drop (length MD_MID) after_alt)
            else None)
      else None)"

lemma match_group_shorter: "match_group P t = Some (u, r) \<Longrightarrow> length r < length t"
proof -
  assume "match_group P t = Some (u, r)"
  then have ne: "dropWhile P t \<noteq> []" and r: "r = tl (dropWhile P t)"
    by (simp_all add: match_group_def split: if_splits)
  have "length (dropWhile P t) \<le> length t"
    by (rule length_dropWhile_le)
  with ne r show ?thesis
    by (cases "dropWhile P t") simp_all
qed

lemma match_src_shorter: "match_src s = Some (u, r) \<Longrightarrow> length r < length s"
proof -
  assume a: "match_src s = Some (u, r)"
  then obtain q t where d: "drop (length SRC_EQ) s = q # t"
    and g: "match_group (\<lambda>c. \<not> is_quote c) t = Some (u, r)"
    by (simp add: match_src_def split: if_splits list.splits)
  from d have "length (drop (length SRC_EQ) s) = Suc (length t)" by simp
  then have "length t < length s" by simp
  with match_group_shorter [OF g] show ?thesis by simp
qed

lemma try_src_shorter: "try_src n rest = Some (u, r) \<Longrightarrow> length r < length rest"
proof (induction n)
  case 0
  then show ?case by simp
next
  case (Suc n)
  show ?case
  proof (cases "match_src (drop (Suc n) rest)")
    case None
    with Suc show ?thesis by simp
  next
    case (Some a)
    with Suc.prems have "match_src (drop (Suc n) rest) = Some (u, r)" by simp
    then have "length r < length (drop (Suc n) rest)" by (rule match_src_shorter)
    then show ?thesis by simp
  qed
qed

lemma match_html_at_shorter: "match_html_at s = Some (u, r) \<Longrightarrow> length r < length s"
proof -
  assume "match_html_at s = Some (u, r)"
  then have "try_src (length (takeWhile (\<lambda>c. c \<noteq> CHR ''>'') (drop (length IMG_OPEN) s)))
             (drop (length IMG_OPEN) s) = Some (u, r)"
    by (simp add: match_html_at_def split: if_splits)
  then have "length r < length (drop (length IMG_OPEN) s)" by (rule try_src_shorter)
  then show ?thesis by simp
qed

lemma match_md_at_shorter: "match_md_at s = Some (u, r) \<Longrightarrow> length r < length s"
proof -
  assume "match_md_at s = Some (u, r)"
  then have "match_group (\<lambda>c. c \<noteq> CHR '')'')
      (drop (length MD_MID) (dropWhile (\<lambda>c. c \<noteq> CHR '']'') (drop (length MD_OPEN) s)))
      = Some (u, r)"
    by (simp add: match_md_at_def Let_def split: if_splits)
  then have "length r
      < length (drop (length MD_MID) (dropWhile (\<lambda>c. c \<noteq> CHR '']'') (drop (length MD_OPEN) s)))"
    by (rule match_group_shorter)
  moreover have "length (dropWhile (\<lambda>c. c \<noteq> CHR '']'') (drop (length MD_OPEN) s))
      \<le> length (drop (length MD_OPEN) s)"
    by (rule length_dropWhile_le)
  ultimately show ?thesis by simp
qed

text \<open>
  \<open>findall\<close>: the groups of the successive matches of a pattern, from left to right.
  The test on the lengths holds for both patterns (the lemmas above); it makes the
  search a total function of any matcher.
\<close>

function findall :: "(string \<Rightarrow> (string \<times> string) option) \<Rightarrow> string \<Rightarrow> string list" where
  "findall match_at [] = []"
| "findall match_at (c # cs) =
     (case match_at (c # cs) of
        Some (u, r) \<Rightarrow>
          if length r < length (c # cs) then u # findall match_at r else [u]
      | None \<Rightarrow> findall match_at cs)"
  by pat_completeness auto
termination
  by (relation "measure (\<lambda>(m, s). length s)") auto


text \<open>The loop that drops the URLs seen before.\<close>

fun unique_urls :: "string set \<Rightarrow> string list \<Rightarrow> string list" where
  "unique_urls seen [] = []"
| "unique_urls seen (url # urls) =
     (if url \<notin> seen then url # unique_urls (insert url seen) urls
      else unique_urls seen urls)"

definition html_urls :: "string \<Rightarrow> string list" where
  "html_urls body = findall match_html_at body"

definition markdown_urls :: "string \<Rightarrow> string list" where
  "markdown_urls body = findall match_md_at body"

definition extract_image_urls :: "string \<Rightarrow> string list" where
  "extract_image_urls body = unique_urls {} (html_urls body @ markdown_urls body)"

lemma remdups_snoc:
  "remdups (xs @ [u]) = remdups (filter (\<lambda>x. x \<noteq> u) xs) @ [u]"
  by (induction xs) auto

lemma unique_urls_first_occurrences:
  "unique_urls seen us = rev (remdups (rev (filter (\<lambda>u. u \<notin> seen) us)))"
proof (induction us arbitrary: seen)
  case Nil
  then show ?case by simp
next
  case (Cons u us)
  show ?case
  proof (cases "u \<in> seen")
    case True
    then show ?thesis by (simp add: Cons.IH)
  next
    case False
    have f: "filter (\<lambda>x. x \<noteq> u) (rev (filter (\<lambda>u. u \<notin> seen) us))
        = rev (filter (\<lambda>x. x \<notin> insert u seen) us)"
      by (simp add: rev_filter [symmetric] conj_commute)
    from False show ?thesis
      by (simp add: Cons.IH remdups_snoc f)
  qed
qed

lemma unique_urls_distinct: "distinct (unique_urls seen us)"
  by (simp add: unique_urls_first_occurrences)

lemma unique_urls_set: "set (unique_urls seen us) = set us - seen"
  by (auto simp: unique_urls_first_occurrences)


text \<open>
  Claim C5, amended. For every issue body, image-URL extraction returns the URLs of the
  HTML img tags, in their order in the body, followed by the URLs of the Markdown
  images, in their order in the body, each URL kept only where it comes first in that
  sequence: the result has no duplicates and holds exactly the URLs of both kinds. In
  particular a body with the same URL once as an HTML img tag and once as a Markdown
  image yields exactly one URL.
\<close>

theorem image_urls_html_then_markdown:
  "distinct (extract_image_urls body)
   \<and> set (extract_image_urls body) = set (html_urls body) \<union> set (markdown_urls body)
   \<and> extract_image_urls body = rev (remdups (rev (html_urls body @ markdown_urls body)))
   \<and> (html_urls body = [u] \<and> markdown_urls body = [u] \<longrightarrow> extract_image_urls body = [u])"
proof -
  have d: "distinct (extract_image_urls body)"
    unfolding extract_image_urls_def by (rule unique_urls_distinct)
  have s: "set (extract_image_urls body) = set (html_urls body) \<union> set (markdown_urls body)"
    by (simp add: extract_image_urls_def unique_urls_set)
  have o: "extract_image_urls body = rev (remdups (rev (html_urls body @ markdown_urls body)))"
    by (simp add: extract_image_urls_def unique_urls_first_occurrences)
  have p: "extract_image_urls body = [u]"
    if "html_urls body = [u] \<and> markdown_urls body = [u]"
    using that by (simp add: extract_image_urls_def)
  from d s o p show ?thesis by blast
qed

definition both_kinds_body :: string where
  "both_kinds_body = ''<img src='' @ dq @ ''u'' @ dq @ ''> ![a](u)''"

definition markdown_first_body :: string where
  "markdown_first_body = ''![a](u1) <img src='' @ dq @ ''u2'' @ dq @ ''>''"

theorem image_urls_html_then_markdown_witness:
  "html_urls both_kinds_body = [''u''] \<and> markdown_urls both_kinds_body = [''u'']
   \<and> extract_image_urls both_kinds_body = [''u'']"
proof -
  have h: "html_urls both_kinds_body = [''u''] \<and> markdown_urls both_kinds_body = [''u'']"
    by code_simp
  note t = image_urls_html_then_markdown [of both_kinds_body "''u''",
      THEN conjunct2, THEN conjunct2, THEN conjunct2, THEN mp, OF h]
  show ?thesis
    by (intro conjI) (rule h [THEN conjunct1], rule h [THEN conjunct2], rule t)
qed

text \<open>
  The claim as stated fails: in the body below the Markdown image \<open>u1\<close> stands before
  the HTML tag of \<open>u2\<close>, and the result lists \<open>u2\<close> first.
\<close>

theorem image_urls_order_counterexample:
  "extract_image_urls markdown_first_body = [''u2'', ''u1'']
   \<and> map_option (\<lambda>p. length (fst p)) (split_at_sub ''u1'' markdown_first_body) = Some 5
   \<and> map_option (\<lambda>p. length (fst p)) (split_at_sub ''u2'' markdown_first_body) = Some 19"
proof -
  have a: "extract_image_urls markdown_first_body = [''u2'', ''u1'']"
    by code_simp
  have b: "map_option (\<lambda>p. length (fst p)) (split_at_sub ''u1'' markdown_first_body) = Some 5"
    by code_simp
  have c: "map_option (\<lambda>p. length (fst p)) (split_at_sub ''u2'' markdown_first_body) = Some 19"
    by code_simp
  show ?thesis by (intro conjI) (rule a, rule b, rule c)
qed

section \<open>Posting to the issue (adw_modules/github.py, workflow_ops.py)\<close>









section \<open>Committing (adw_modules/git_ops.py)\<close>



section \<open>Test phase (adw_test.py, main)\<close>
















subsection \<open>What the steps of a phase do to the world\<close>

fun is_call :: "string \<Rightarrow> event \<Rightarrow> bool" where
  "is_call cmd (EvAgent rq r) = (slash_command rq = cmd)"
| "is_call cmd _ = False"

text \<open>The number of agent runs of a slash command in a trace.\<close>

definition calls :: "string \<Rightarrow> event list \<Rightarrow> nat" where
  "calls cmd tr = length (filter (is_call cmd) tr)"




lemma calls_append [simp]: "calls cmd (xs @ ys) = calls cmd xs + calls cmd ys"
  by (simp add: calls_def)

lemma calls_single [simp]:
  "calls cmd [EvComment i c rc] = 0" "calls cmd [EvSave p] = 0"
  "calls cmd [EvAgent rq r] = (if slash_command rq = cmd then 1 else 0)"
  by (simp_all add: calls_def)


lemma execute_template_world:
  assumes "execute_template e w rq = (w', r)"
  shows "disk w' = disk w"
    and "calls cmd (trace w') = calls cmd (trace w) + (if slash_command rq = cmd then 1 else 0)"
    and "set (trace w) \<subseteq> set (trace w')"
  using assms by (auto simp: execute_template_def Let_def)






























section \<open>Review phase (adw_review.py, main)\<close>




















subsection \<open>What the steps of the review phase do to the world\<close>




























end
